theory Spec2Isabelle
  imports Main
begin

section \<open>Strings of the interpreter\<close>

text \<open>
  The repository is Python; its string operations are those of \<^verbatim>\<open>str\<close>. A string is
  a list of characters. The character tables (letters, case, white space) are the ASCII
  ones: the interpreter's Unicode database is not part of the repository, and code points
  above 127 are treated here as uncased characters that are neither letters nor blanks.
\<close>

definition startswith :: "string \<Rightarrow> string \<Rightarrow> bool" where
  \<comment> \<open>\<^verbatim>\<open>s.startswith(p)\<close>\<close>
  "startswith s p = (take (length p) s = p)"

fun str_in :: "string \<Rightarrow> string \<Rightarrow> bool" where
  \<comment> \<open>\<^verbatim>\<open>sub in s\<close>: \<open>sub\<close> starts at some position of \<open>s\<close>\<close>
  "str_in sub [] = (sub = [])"
| "str_in sub (c # cs) = (startswith (c # cs) sub \<or> str_in sub cs)"

fun find_str :: "string \<Rightarrow> string \<Rightarrow> int" where
  \<comment> \<open>\<^verbatim>\<open>s.find(sub)\<close>: the lowest index where \<open>sub\<close> starts, or -1\<close>
  "find_str [] sub = (if sub = [] then 0 else - 1)"
| "find_str (c # cs) sub =
     (if startswith (c # cs) sub then 0
      else (let r = find_str cs sub in if r < 0 then - 1 else r + 1))"

fun replace_str :: "string \<Rightarrow> string \<Rightarrow> string \<Rightarrow> string" where
  \<comment> \<open>\<^verbatim>\<open>s.replace(old, new)\<close>: every occurrence, found from the left, none overlapping;
      an empty \<open>old\<close> matches before every character and at the end\<close>
  "replace_str [] old new = (if old = [] then new else [])"
| "replace_str (c # cs) old new =
     (if old = [] then new @ concat (map (\<lambda>x. x # new) (c # cs))
      else if startswith (c # cs) old
        then new @ replace_str (drop (length old) (c # cs)) old new
      else c # replace_str cs old new)"

fun split_str :: "string \<Rightarrow> string \<Rightarrow> string list" where
  \<comment> \<open>\<^verbatim>\<open>s.split(sep)\<close> for a separator that is not empty (the callers pass literals;
      Python raises ValueError for an empty one): the pieces between the occurrences of
      \<open>sep\<close>, found from the left\<close>
  "split_str [] sep = [[]]"
| "split_str (c # cs) sep =
     (if sep \<noteq> [] \<and> startswith (c # cs) sep
        then [] # split_str (drop (length sep) (c # cs)) sep
      else (case split_str cs sep of
              piece # pieces \<Rightarrow> (c # piece) # pieces
            | [] \<Rightarrow> [[c]]))"

definition is_upper :: "char \<Rightarrow> bool" where
  "is_upper c = (65 \<le> (of_char c :: nat) \<and> (of_char c :: nat) \<le> 90)"

definition is_lower :: "char \<Rightarrow> bool" where
  "is_lower c = (97 \<le> (of_char c :: nat) \<and> (of_char c :: nat) \<le> 122)"

definition is_alpha :: "char \<Rightarrow> bool" where
  "is_alpha c = (is_upper c \<or> is_lower c)"

definition is_space :: "char \<Rightarrow> bool" where
  \<comment> \<open>the ASCII white space of \<^verbatim>\<open>str.isspace\<close>: tab to carriage return, the four
      separators 28 to 31, and the blank\<close>
  "is_space c = (let n = (of_char c :: nat) in (9 \<le> n \<and> n \<le> 13) \<or> (28 \<le> n \<and> n \<le> 32))"

definition to_upper :: "char \<Rightarrow> char" where
  "to_upper c = (if is_lower c then char_of ((of_char c :: nat) - 32) else c)"

definition to_lower :: "char \<Rightarrow> char" where
  "to_lower c = (if is_upper c then char_of ((of_char c :: nat) + 32) else c)"


fun title_from :: "bool \<Rightarrow> string \<Rightarrow> string" where
  \<comment> \<open>the scan of \<^verbatim>\<open>s.title()\<close>: a cased character after a cased one is lowered,
      any other is put in title case\<close>
  "title_from previous_is_cased [] = []"
| "title_from previous_is_cased (c # cs) =
     (if previous_is_cased then to_lower c else to_upper c) # title_from (is_alpha c) cs"

definition title :: "string \<Rightarrow> string" where
  "title s = title_from False s"

definition strip :: "string \<Rightarrow> string" where
  \<comment> \<open>\<^verbatim>\<open>s.strip()\<close>: white space removed at both ends\<close>
  "strip s = rev (dropWhile is_space (rev (dropWhile is_space s)))"

section \<open>Files\<close>

text \<open>
  A file system maps a path to the file stored there. A text file holds the characters
  on disk; a Word document holds its paragraphs. Writing through a file opened in text
  mode with the default \<^verbatim>\<open>newline=None\<close> turns every line feed into the platform's
  line separator \<^verbatim>\<open>os.linesep\<close>, which the functions below take as a parameter.
\<close>

datatype file_content = TextFile string | DocxFile "string list"

type_synonym fs = "string \<rightharpoonup> file_content"

datatype error =
    SystemExit | FileNotFoundError | UnsupportedOperation | TypeError | AttributeError
  | UnicodeDecodeError | CsvError

datatype mode = ReadMode | WriteMode

definition text_write :: "string \<Rightarrow> string \<Rightarrow> string" where
  \<comment> \<open>what \<^verbatim>\<open>f.write(s)\<close> puts on disk, \<open>f\<close> opened with \<^verbatim>\<open>newline=None\<close>\<close>
  "text_write linesep s = concat (map (\<lambda>c. if c = CHR 0x0A then linesep else [c]) s)"

definition with_open_write :: "string \<Rightarrow> fs \<Rightarrow> string \<Rightarrow> mode \<Rightarrow> string \<Rightarrow> fs \<times> error option" where
  \<comment> \<open>\<^verbatim>\<open>with open(path, mode) as f: f.write(s)\<close>. Mode \<^verbatim>\<open>"w"\<close> creates or truncates the
      file and writes; mode \<^verbatim>\<open>"r"\<close> raises FileNotFoundError when the file is absent and
      otherwise opens a stream that is not writable, so \<^verbatim>\<open>write\<close> raises
      \<^verbatim>\<open>io.UnsupportedOperation\<close>. The error, if any, comes with the file system left behind.\<close>
  "with_open_write linesep files path m s =
     (case m of
        WriteMode \<Rightarrow> (files(path \<mapsto> TextFile (text_write linesep s)), None)
      | ReadMode \<Rightarrow>
          (files, Some (if files path = None then FileNotFoundError else UnsupportedOperation)))"

fun text_read :: "string \<Rightarrow> string" where
  \<comment> \<open>what \<^verbatim>\<open>f.read()\<close> returns for the characters on disk, \<open>f\<close> opened with
      \<^verbatim>\<open>newline=None\<close>: a carriage return, alone or before a line feed, reads as one
      line feed\<close>
  "text_read [] = []"
| "text_read [c] = (if c = CHR 0x0D then [CHR 0x0A] else [c])"
| "text_read (c # d # ds) =
     (if c = CHR 0x0D \<and> d = CHR 0x0A then CHR 0x0A # text_read ds
      else if c = CHR 0x0D then CHR 0x0A # text_read (d # ds)
      else c # text_read (d # ds))"

definition read_text_file :: "fs \<Rightarrow> string \<Rightarrow> error + string" where
  \<comment> \<open>\<^verbatim>\<open>with open(path) as f: f.read()\<close>\<close>
  "read_text_file files path =
     (case files path of
        None \<Rightarrow> Inl FileNotFoundError
      | Some (DocxFile paragraphs) \<Rightarrow> Inl UnicodeDecodeError
      | Some (TextFile raw) \<Rightarrow> Inr (text_read raw))"

section \<open>Letter generation\<close>

definition mail_path :: "string \<Rightarrow> string \<Rightarrow> string" where
  \<comment> \<open>\<^verbatim>\<open>f"{self.output_directory}/{recipient}'s Mail.txt"\<close>\<close>
  "mail_path dir recipient = dir @ ''/'' @ recipient @ CHR 0x27 # ''s Mail.txt''"

definition mail1_path :: "string \<Rightarrow> string \<Rightarrow> string" where
  \<comment> \<open>\<^verbatim>\<open>f"{self.output_directory}/{recipient}'s Mail(1).txt"\<close>\<close>
  "mail1_path dir recipient = dir @ ''/'' @ recipient @ CHR 0x27 # ''s Mail(1).txt''"

definition write_letter :: "string \<Rightarrow> string \<Rightarrow> string \<Rightarrow> string \<Rightarrow> fs \<Rightarrow> fs \<times> error option" where
  \<comment> \<open>The body of the loop of \<^verbatim>\<open>Letter.generate_personalized_letters\<close> in EduMerge.py:
      the \<^verbatim>\<open>try\<close> opens the plain name for reading; FileNotFoundError selects the handler.\<close>
  "write_letter linesep dir letter_body recipient files =
     (if files (mail_path dir recipient) \<noteq> None
      then (case with_open_write linesep files (mail1_path dir recipient) WriteMode
                   (replace_str letter_body ''[name]'' recipient) of
              (files', Some FileNotFoundError) \<Rightarrow>
                with_open_write linesep files' (mail_path dir recipient) WriteMode
                  (replace_str letter_body ''[name]'' recipient)
            | r \<Rightarrow> r)
      else with_open_write linesep files (mail_path dir recipient) WriteMode
             (replace_str letter_body ''[name]'' recipient))"

fun letters_loop :: "string \<Rightarrow> string \<Rightarrow> string \<Rightarrow> string list \<Rightarrow> fs \<Rightarrow> fs \<times> error option" where
  \<comment> \<open>\<^verbatim>\<open>for recipient in name_manager.recipient_names: ...\<close>; an exception ends the loop\<close>
  "letters_loop linesep dir letter_body [] files = (files, None)"
| "letters_loop linesep dir letter_body (recipient # rest) files =
     (case write_letter linesep dir letter_body recipient files of
        (files', None) \<Rightarrow> letters_loop linesep dir letter_body rest files'
      | (files', Some e) \<Rightarrow> (files', Some e))"

definition merger_write_letter :: "string \<Rightarrow> string \<Rightarrow> string \<Rightarrow> string \<Rightarrow> fs \<Rightarrow> fs \<times> error option" where
  \<comment> \<open>The body of the same loop in merger.py, where all three \<^verbatim>\<open>open\<close> calls pass \<^verbatim>\<open>"r"\<close>.\<close>
  "merger_write_letter linesep dir letter_body recipient files =
     (if files (mail_path dir recipient) \<noteq> None
      then (case with_open_write linesep files (mail1_path dir recipient) ReadMode
                   (replace_str letter_body ''[name]'' recipient) of
              (files', Some FileNotFoundError) \<Rightarrow>
                with_open_write linesep files' (mail_path dir recipient) ReadMode
                  (replace_str letter_body ''[name]'' recipient)
            | r \<Rightarrow> r)
      else with_open_write linesep files (mail_path dir recipient) ReadMode
             (replace_str letter_body ''[name]'' recipient))"

fun merger_letters_loop :: "string \<Rightarrow> string \<Rightarrow> string \<Rightarrow> string list \<Rightarrow> fs \<Rightarrow> fs \<times> error option" where
  "merger_letters_loop linesep dir letter_body [] files = (files, None)"
| "merger_letters_loop linesep dir letter_body (recipient # rest) files =
     (case merger_write_letter linesep dir letter_body recipient files of
        (files', None) \<Rightarrow> merger_letters_loop linesep dir letter_body rest files'
      | (files', Some e) \<Rightarrow> (files', Some e))"

definition letter_path :: "string \<Rightarrow> fs \<Rightarrow> string \<Rightarrow> string" where
  \<comment> \<open>the file the loop writes for a recipient, by the files there before\<close>
  "letter_path dir files recipient =
     (if files (mail_path dir recipient) = None then mail_path dir recipient
      else mail1_path dir recipient)"

definition letter_text :: "string \<Rightarrow> string \<Rightarrow> string \<Rightarrow> file_content" where
  "letter_text linesep body recipient =
     TextFile (text_write linesep (replace_str body ''[name]'' recipient))"

section \<open>Dialogs\<close>

text \<open>
  Every dialog blocks until the user answers. The answers the user is going to give are
  a list of events, consumed from the front; the dialogs whose result the code discards
  (message boxes, the notices before a file dialog) take none. Each dialog class stores
  its result and the button pressed together, in \<^verbatim>\<open>finish\<close>. A function returns with
  the state it leaves and the answers not yet consumed, raises, or has no answer to go on
  with (the list is exhausted, or its next answer is not for the dialog shown).
\<close>

datatype event =
    CustomBoxResult "string option"
  | IntBoxResult int string
  | StringBoxResult string string
  | TextBoxResult string string
  | AskOpenFilename string
  | AskDirectory string
  | AskSaveAsFilename string

datatype 'a result = Return 'a | Raise error | NoInput

fun exit_confirmation :: "event list \<Rightarrow> (event list) result" where
  "exit_confirmation (CustomBoxResult user_choice # script) =
     (if user_choice = Some ''Yes'' then Raise SystemExit else Return script)"
| "exit_confirmation _ = NoInput"

fun show_exit_confirmation :: "(event list \<Rightarrow> 'a result) \<Rightarrow> event list \<Rightarrow> 'a result" where
  "show_exit_confirmation callback_function (CustomBoxResult user_choice # script) =
     (if user_choice = Some ''Yes'' then Raise SystemExit else callback_function script)"
| "show_exit_confirmation callback_function _ = NoInput"

lemma exit_confirmation_shorter:
  "exit_confirmation script = Return script' \<Longrightarrow> length script' < length script"
  by (induction script rule: exit_confirmation.induct) (auto split: if_splits)

lemma show_exit_confirmation_cong [fundef_cong]:
  assumes "script = script'"
    and "\<And>rest. length rest < length script' \<Longrightarrow> f rest = g rest"
  shows "show_exit_confirmation f script = show_exit_confirmation g script'"
  using assms by (induction g script' rule: show_exit_confirmation.induct) auto

record Letter =
  letter_body :: string
  output_directory :: string
  letter_file_location :: string
  is_placeholder_not_present :: bool

fun generate_personalized_letters ::
  "string \<Rightarrow> string list \<Rightarrow> event list \<Rightarrow> Letter \<Rightarrow> fs \<Rightarrow> (Letter \<times> fs \<times> event list) result" where
  \<comment> \<open>EduMerge.py; \<open>recipient_names\<close> is the list of the global \<^verbatim>\<open>name_manager\<close>\<close>
  "generate_personalized_letters linesep recipient_names (AskDirectory dir # script) letter files =
     (let letter' = letter\<lparr>output_directory := dir\<rparr> in
      case letters_loop linesep (output_directory letter') (letter_body letter') recipient_names files of
        (files', None) \<Rightarrow> Return (letter', files', script)
      | (files', Some e) \<Rightarrow> Raise e)"
| "generate_personalized_letters linesep recipient_names _ letter files = NoInput"

fun merger_generate_personalized_letters ::
  "string \<Rightarrow> string list \<Rightarrow> event list \<Rightarrow> Letter \<Rightarrow> fs \<Rightarrow> (Letter \<times> fs \<times> event list) result" where
  \<comment> \<open>merger.py\<close>
  "merger_generate_personalized_letters linesep recipient_names (AskDirectory dir # script) letter files =
     (let letter' = letter\<lparr>output_directory := dir\<rparr> in
      case merger_letters_loop linesep (output_directory letter') (letter_body letter') recipient_names files of
        (files', None) \<Rightarrow> Return (letter', files', script)
      | (files', Some e) \<Rightarrow> Raise e)"
| "merger_generate_personalized_letters linesep recipient_names _ letter files = NoInput"

function (sequential) process_letter_content ::
  "string \<Rightarrow> string list \<Rightarrow> event list \<Rightarrow> Letter \<Rightarrow> fs \<Rightarrow> (Letter \<times> fs \<times> event list) result" where
  "process_letter_content linesep recipient_names (CustomBoxResult file_input_choice # script) letter files =
     (if file_input_choice = None
        then show_exit_confirmation
               (\<lambda>s. process_letter_content linesep recipient_names s letter files) script
      else if file_input_choice = Some ''Browse'' then
        (case script of
           AskOpenFilename location # script' \<Rightarrow>
             (let letter1 = letter\<lparr>letter_file_location := location\<rparr> in
              if location = []
                then show_exit_confirmation
                       (\<lambda>s. process_letter_content linesep recipient_names s letter1 files) script'
              else (case read_text_file files location of
                      Inl e \<Rightarrow> Raise e
                    | Inr content \<Rightarrow>
                        (let letter2 = letter1\<lparr>letter_body := content\<rparr>;
                             name_place = find_str (letter_body letter2) ''[name]'';
                             letter3 = letter2\<lparr>is_placeholder_not_present := (name_place < 0)\<rparr>
                         in if is_placeholder_not_present letter3
                              then process_letter_content linesep recipient_names script' letter3 files
                            else generate_personalized_letters linesep recipient_names script' letter3 files)))
         | _ \<Rightarrow> NoInput)
      else if file_input_choice = Some ''Type Letter Content'' then
        (case script of
           TextBoxResult text continue_choice # script' \<Rightarrow>
             (let letter1 = letter\<lparr>letter_body := text\<rparr> in
              if continue_choice = ''Exit''
                then show_exit_confirmation
                       (\<lambda>s. process_letter_content linesep recipient_names s letter1 files) script'
              else if continue_choice = []
                then process_letter_content linesep recipient_names script' letter1 files
              else (let name_place = find_str (letter_body letter1) ''[name]'';
                        letter2 = letter1\<lparr>is_placeholder_not_present := (name_place < 0)\<rparr>
                    in if is_placeholder_not_present letter2
                         then process_letter_content linesep recipient_names script' letter2 files
                       else generate_personalized_letters linesep recipient_names script' letter2 files))
         | _ \<Rightarrow> NoInput)
      else Return (letter, files, script))"
| "process_letter_content linesep recipient_names _ letter files = NoInput"
  by pat_completeness auto
termination
  by (relation "measure (\<lambda>(linesep, recipient_names, script, letter, files). length script)") auto

section \<open>Name collection\<close>

record NameManager =
  recipient_names :: "string list"
  name_input_method :: "string option"
  names_file_location :: string
  total_recipients :: int
  name_prompt :: string

function (sequential) ask_recipient_count ::
  "event list \<Rightarrow> NameManager \<Rightarrow> (NameManager \<times> event list) result" where
  \<comment> \<open>\<^verbatim>\<open>while True\<close>: one dialog per round, left by \<^verbatim>\<open>break\<close> when the count is at least 2\<close>
  "ask_recipient_count (IntBoxResult n choice # script) name_manager =
     (let nm1 = name_manager\<lparr>total_recipients := n\<rparr> in
      if choice = ''Exit'' then
        (let nm2 = nm1\<lparr>total_recipients := 0\<rparr> in
         case exit_confirmation script of
           Return script' \<Rightarrow>
             if total_recipients nm2 \<ge> 2 then Return (nm2, script')
             else ask_recipient_count script' nm2
         | Raise e \<Rightarrow> Raise e
         | NoInput \<Rightarrow> NoInput)
      else if total_recipients nm1 \<ge> 2 then Return (nm1, script)
      else ask_recipient_count script nm1)"
| "ask_recipient_count _ name_manager = NoInput"
  by pat_completeness auto
termination
  by (relation "measure (\<lambda>(script, name_manager). length script)")
    (auto dest: exit_confirmation_shorter)




function (sequential) ask_name_file ::
  "event list \<Rightarrow> NameManager \<Rightarrow> (NameManager \<times> event list) result" where
  "ask_name_file (AskOpenFilename location # script) name_manager =
     (let nm1 = name_manager\<lparr>names_file_location := location\<rparr> in
      if location = [] then
        (case exit_confirmation script of
           Return script' \<Rightarrow> ask_name_file script' nm1
         | Raise e \<Rightarrow> Raise e
         | NoInput \<Rightarrow> NoInput)
      else Return (nm1, script))"
| "ask_name_file _ name_manager = NoInput"
  by pat_completeness auto
termination
  by (relation "measure (\<lambda>(script, name_manager). length script)")
    (auto dest: exit_confirmation_shorter)

lemma ask_name_file_shorter:
  "ask_name_file script name_manager = Return (nm', script') \<Longrightarrow> length script' < length script"
proof (induction script name_manager rule: ask_name_file.induct)
  case (1 location script name_manager)
  show ?case
  proof (cases "location = []")
    case False
    with "1.prems" show ?thesis by (simp add: Let_def)
  next
    case True
    with "1.prems" obtain s where s: "exit_confirmation script = Return s"
      and r: "ask_name_file s (name_manager\<lparr>names_file_location := location\<rparr>) = Return (nm', script')"
      by (auto simp: Let_def split: result.splits)
    from "1.IH" [OF refl True s r] exit_confirmation_shorter [OF s] show ?thesis by simp
  qed
qed simp_all

function names_text_file_processing ::
  "(event list \<Rightarrow> NameManager \<Rightarrow> (NameManager \<times> event list) result) \<Rightarrow>
   event list \<Rightarrow> NameManager \<Rightarrow> fs \<Rightarrow> (NameManager \<times> event list) result" where
  \<comment> \<open>\<^verbatim>\<open>name_collection\<close>, which the \<^verbatim>\<open>except\<close> branch calls and which calls this function
      in turn, is a parameter: what is proved of this function holds whatever it does\<close>
  "names_text_file_processing name_collection script name_manager files =
     (case ask_name_file script name_manager of
        Return (nm1, script1) \<Rightarrow>
          (case read_text_file files (names_file_location nm1) of
             Inl e \<Rightarrow> name_collection script1 nm1
           | Inr names_content \<Rightarrow>
               if \<not> str_in '', '' names_content
                 then names_text_file_processing name_collection script1 nm1 files
               else Return (nm1\<lparr>recipient_names := split_str names_content '', ''\<rparr>, script1))
      | Raise e \<Rightarrow> Raise e
      | NoInput \<Rightarrow> NoInput)"
  by pat_completeness auto
termination
  by (relation "measure (\<lambda>(name_collection, script, name_manager, files). length script)")
    (auto dest: ask_name_file_shorter)

declare names_text_file_processing.simps [simp del]

section \<open>The csv module\<close>














definition needs_quote :: "char \<Rightarrow> bool" where
  \<comment> \<open>the delimiter, the quote character, or a character of the line terminator\<close>
  "needs_quote c = (c = CHR '','' \<or> c = CHR 0x22 \<or> c = CHR 0x0D \<or> c = CHR 0x0A)"

definition join_append_data :: "string \<Rightarrow> string" where
  "join_append_data field_data =
     (let body = concat (map (\<lambda>c. if c = CHR 0x22 then [c, c] else [c]) field_data)
      in if list_ex needs_quote field_data then CHR 0x22 # body @ [CHR 0x22] else body)"

fun join_str :: "string \<Rightarrow> string list \<Rightarrow> string" where
  \<comment> \<open>the fields of a record with the delimiter between them\<close>
  "join_str sep [] = []"
| "join_str sep [x] = x"
| "join_str sep (x # y # ys) = x @ sep @ join_str sep (y # ys)"

definition writerow :: "string list \<Rightarrow> string" where
  \<comment> \<open>a record that is one empty field is written as two quotes\<close>
  "writerow row =
     (let rec = join_str '','' (map join_append_data row)
      in (if row \<noteq> [] \<and> rec = [] then [CHR 0x22, CHR 0x22] else rec) @ [CHR 0x0D, CHR 0x0A])"

definition writerows :: "string list list \<Rightarrow> string" where
  "writerows rows = concat (map writerow rows)"

section \<open>The editor\<close>

record ModernEditorApp =
  text_area :: string
  filename :: "string option"
  current_file_type :: string
  csv_data :: "string list list"
  csv_headers :: "string list"
  is_saved :: bool




fun add_paragraphs :: "string list \<Rightarrow> string list \<Rightarrow> string list" where
  \<comment> \<open>\<^verbatim>\<open>for line in ...: if line.strip(): doc.add_paragraph(line)\<close>, the document as the
      list of its paragraphs\<close>
  "add_paragraphs doc [] = doc"
| "add_paragraphs doc (line # rest) =
     add_paragraphs (if strip line \<noteq> [] then doc @ [line] else doc) rest"

definition save_as_docx :: "string \<Rightarrow> ModernEditorApp \<Rightarrow> fs \<Rightarrow> fs" where
  "save_as_docx filepath app files =
     (let doc = [];
          content = text_area app;
          doc' = add_paragraphs doc (split_str content [CHR 0x0A])
      in files(filepath \<mapsto> DocxFile doc'))"

function save_file ::
    "string \<Rightarrow> event list \<Rightarrow> ModernEditorApp \<Rightarrow> fs \<Rightarrow> (ModernEditorApp \<times> fs \<times> event list) result"
  and save_as_file ::
    "string \<Rightarrow> event list \<Rightarrow> ModernEditorApp \<Rightarrow> fs \<Rightarrow> (ModernEditorApp \<times> fs \<times> event list) result"
  where
  "save_file linesep script app files =
     (case filename app of
        Some path \<Rightarrow>
          (if path \<noteq> [] then
             (let files' =
                (if current_file_type app = ''csv''
                   then files(path \<mapsto> TextFile (writerows (csv_data app)))
                 else if current_file_type app = ''docx'' then save_as_docx path app files
                 else files(path \<mapsto> TextFile (text_write linesep (text_area app))))
              in Return (app\<lparr>is_saved := True\<rparr>, files', script))
           else save_as_file linesep script app files)
      | None \<Rightarrow> save_as_file linesep script app files)"
| "save_as_file linesep script app files =
     (case script of
        AskSaveAsFilename filepath # rest \<Rightarrow>
          (if filepath \<noteq> [] then save_file linesep rest (app\<lparr>filename := Some filepath\<rparr>) files
           else Return (app, files, rest))
      | _ \<Rightarrow> NoInput)"
  by pat_completeness auto
termination
  by (relation "measure (\<lambda>x. case x of
        Inl (linesep, script, app, files) \<Rightarrow>
          (case filename app of Some path \<Rightarrow> if path \<noteq> [] then 0 else 2 | None \<Rightarrow> 2)
      | Inr _ \<Rightarrow> 1)") auto

section \<open>Notions used in the proofs about the csv module\<close>







section \<open>Properties of letter generation\<close>

lemma mail_path_eq [simp]: "mail_path dir r = mail_path dir r' \<longleftrightarrow> r = r'"
  by (simp add: mail_path_def)

lemma mail1_path_eq [simp]: "mail1_path dir r = mail1_path dir r' \<longleftrightarrow> r = r'"
  by (simp add: mail1_path_def)

lemma mail_path_neq_mail1 [simp]: "mail_path dir r \<noteq> mail1_path dir r'"
proof
  assume "mail_path dir r = mail1_path dir r'"
  then have "(r @ CHR 0x27 # ''s Mai'') @ ''l.txt'' = (r' @ CHR 0x27 # ''s Mail(1'') @ '').txt''"
    by (simp add: mail_path_def mail1_path_def)
  then have "''l.txt'' = '').txt''"
    by (subst (asm) append_eq_append_conv) simp_all
  then show False by simp
qed

lemma mail1_path_neq_mail [simp]: "mail1_path dir r \<noteq> mail_path dir r'"
  using mail_path_neq_mail1 [of dir r' r] by metis

lemma write_letter_eq:
  "write_letter linesep dir body r files =
     (files(letter_path dir files r \<mapsto> letter_text linesep body r), None)"
  by (simp add: write_letter_def with_open_write_def letter_path_def letter_text_def)

lemma letters_loop_Cons:
  "letters_loop linesep dir body (r # rs) files =
     letters_loop linesep dir body rs (files(letter_path dir files r \<mapsto> letter_text linesep body r))"
  by (simp add: write_letter_eq)

lemma letters_loop_status: "snd (letters_loop linesep dir body rs files) = None"
  by (induction rs arbitrary: files) (simp_all add: write_letter_eq)

lemma letter_path_cases:
  "letter_path dir files r = mail_path dir r \<or> letter_path dir files r = mail1_path dir r"
  by (simp add: letter_path_def)


lemma letters_loop_frame:
  "p \<notin> mail_path dir ` set rs \<Longrightarrow> p \<notin> mail1_path dir ` set rs \<Longrightarrow>
   fst (letters_loop linesep dir body rs files) p = files p"
proof (induction rs arbitrary: files)
  case Nil
  then show ?case by simp
next
  case (Cons r rs)
  let ?files1 = "files(letter_path dir files r \<mapsto> letter_text linesep body r)"
  have ne: "p \<noteq> letter_path dir files r"
    using Cons.prems letter_path_cases [of dir files r] by auto
  have "fst (letters_loop linesep dir body (r # rs) files) p =
        fst (letters_loop linesep dir body rs ?files1) p"
    by (simp add: write_letter_eq)
  also have "\<dots> = ?files1 p"
    using Cons.prems by (intro Cons.IH) auto
  also have "\<dots> = files p"
    using ne by simp
  finally show ?case .
qed

lemma letters_loop_keeps_mail:
  "files (mail_path dir r) \<noteq> None \<Longrightarrow>
   fst (letters_loop linesep dir body rs files) (mail_path dir r) = files (mail_path dir r)"
proof (induction rs arbitrary: files)
  case Nil
  then show ?case by simp
next
  case (Cons r0 rs)
  let ?files1 = "files(letter_path dir files r0 \<mapsto> letter_text linesep body r0)"
  have ne: "mail_path dir r \<noteq> letter_path dir files r0"
    using Cons.prems by (auto simp: letter_path_def)
  then have same: "?files1 (mail_path dir r) = files (mail_path dir r)"
    by simp
  have "fst (letters_loop linesep dir body (r0 # rs) files) (mail_path dir r) =
        fst (letters_loop linesep dir body rs ?files1) (mail_path dir r)"
    by (simp add: write_letter_eq)
  also have "\<dots> = ?files1 (mail_path dir r)"
    using Cons.prems same by (intro Cons.IH) simp
  finally show ?case using same by simp
qed

lemma letter_path_upd_other:
  "r \<noteq> r0 \<Longrightarrow> letter_path dir (files(letter_path dir files r0 \<mapsto> x)) r = letter_path dir files r"
  using letter_path_cases [of dir files r0] by (auto simp: letter_path_def)

lemma letters_loop_content:
  "r \<in> set rs \<Longrightarrow>
   fst (letters_loop linesep dir body rs files) (letter_path dir files r) = Some (letter_text linesep body r)"
proof (induction rs arbitrary: files)
  case Nil
  then show ?case by simp
next
  case (Cons r0 rs)
  let ?files1 = "files(letter_path dir files r0 \<mapsto> letter_text linesep body r0)"
  let ?out = "fst (letters_loop linesep dir body rs ?files1)"
  have step: "fst (letters_loop linesep dir body (r0 # rs) files) = ?out"
    by (simp add: write_letter_eq)
  show ?case
  proof (cases "r = r0")
    case False
    with Cons.prems have "r \<in> set rs" by simp
    then have "?out (letter_path dir ?files1 r) = Some (letter_text linesep body r)"
      by (rule Cons.IH)
    moreover have "letter_path dir ?files1 r = letter_path dir files r"
      using False by (rule letter_path_upd_other)
    ultimately show ?thesis unfolding step by simp
  next
    case True
    show ?thesis
    proof (cases "r0 \<in> set rs")
      case False
      have "letter_path dir files r0 \<notin> mail_path dir ` set rs"
        and "letter_path dir files r0 \<notin> mail1_path dir ` set rs"
        using False letter_path_cases [of dir files r0] by auto
      then have "?out (letter_path dir files r0) = ?files1 (letter_path dir files r0)"
        by (rule letters_loop_frame)
      also have "\<dots> = Some (letter_text linesep body r0)" by simp
      finally show ?thesis unfolding step True .
    next
      case in_rest: True
      show ?thesis
      proof (cases "files (mail_path dir r0) = None")
        case True
        then have lp: "letter_path dir files r0 = mail_path dir r0"
          by (simp add: letter_path_def)
        have "?files1 (mail_path dir r0) \<noteq> None" by (simp add: lp)
        then have "?out (mail_path dir r0) = ?files1 (mail_path dir r0)"
          by (rule letters_loop_keeps_mail)
        also have "\<dots> = Some (letter_text linesep body r0)" by (simp add: lp)
        finally show ?thesis unfolding step \<open>r = r0\<close> lp .
      next
        case False
        then have lp: "letter_path dir files r0 = mail1_path dir r0"
          by (simp add: letter_path_def)
        have "?files1 (mail_path dir r0) \<noteq> None" using False by (simp add: lp)
        then have lp1: "letter_path dir ?files1 r0 = mail1_path dir r0"
          by (simp add: letter_path_def)
        have "?out (letter_path dir ?files1 r) = Some (letter_text linesep body r)"
          using in_rest \<open>r = r0\<close> by (intro Cons.IH) simp
        then have "?out (mail1_path dir r0) = Some (letter_text linesep body r0)"
          unfolding \<open>r = r0\<close> lp1 .
        then show ?thesis unfolding step \<open>r = r0\<close> lp .
      qed
    qed
  qed
qed

lemma letters_loop_dom:
  "distinct rs \<Longrightarrow>
   dom (fst (letters_loop linesep dir body rs files)) = dom files \<union> letter_path dir files ` set rs"
proof (induction rs arbitrary: files)
  case Nil
  then show ?case by simp
next
  case (Cons r0 rs)
  let ?files1 = "files(letter_path dir files r0 \<mapsto> letter_text linesep body r0)"
  have same: "letter_path dir ?files1 ` set rs = letter_path dir files ` set rs"
    using Cons.prems by (intro image_cong refl letter_path_upd_other) auto
  have "dom (fst (letters_loop linesep dir body (r0 # rs) files)) =
        dom (fst (letters_loop linesep dir body rs ?files1))"
    by (simp add: write_letter_eq)
  also have "\<dots> = dom ?files1 \<union> letter_path dir ?files1 ` set rs"
    using Cons.prems by (intro Cons.IH) simp
  also have "\<dots> = dom files \<union> letter_path dir files ` set (r0 # rs)"
    unfolding same by auto
  finally show ?case .
qed



lemma generate_personalized_letters_eq:
  "generate_personalized_letters linesep rs (AskDirectory dir # script) letter files =
     Return (letter\<lparr>output_directory := dir\<rparr>,
             fst (letters_loop linesep dir (letter_body letter) rs files), script)"
proof -
  obtain files' st where l: "letters_loop linesep dir (letter_body letter) rs files = (files', st)"
    by (cases "letters_loop linesep dir (letter_body letter) rs files")
  moreover have "st = None"
    using letters_loop_status [of linesep dir "letter_body letter" rs files] l by simp
  ultimately show ?thesis by simp
qed






text \<open>
  Claim C5. The copy in merger.py opens every file for reading, so for a list that is not
  empty it raises at the first recipient and leaves the file system as it was, whereas the
  copy in EduMerge.py returns normally and has written that recipient's letter.
\<close>

theorem merger_letters_never_written:
  "merger_letters_loop linesep dir body (r # rs) files =
     (files, Some (if files (mail_path dir r) = None then FileNotFoundError
                   else UnsupportedOperation)) \<and>
   merger_generate_personalized_letters linesep (r # rs) (AskDirectory dir # script) letter files =
     Raise (if files (mail_path dir r) = None then FileNotFoundError else UnsupportedOperation) \<and>
   generate_personalized_letters linesep (r # rs) (AskDirectory dir # script) letter files =
     Return (letter\<lparr>output_directory := dir\<rparr>,
             fst (letters_loop linesep dir (letter_body letter) (r # rs) files), script) \<and>
   fst (letters_loop linesep dir (letter_body letter) (r # rs) files) (letter_path dir files r) =
     Some (TextFile (text_write linesep (replace_str (letter_body letter) ''[name]'' r)))"
proof (intro conjI)
  show loop: "merger_letters_loop linesep dir body (r # rs) files =
     (files, Some (if files (mail_path dir r) = None then FileNotFoundError
                   else UnsupportedOperation))" for body
    by (simp add: merger_write_letter_def with_open_write_def)
  show "merger_generate_personalized_letters linesep (r # rs) (AskDirectory dir # script) letter files =
     Raise (if files (mail_path dir r) = None then FileNotFoundError else UnsupportedOperation)"
    using loop [of "letter_body letter"] by (simp del: merger_letters_loop.simps)
  show "generate_personalized_letters linesep (r # rs) (AskDirectory dir # script) letter files =
     Return (letter\<lparr>output_directory := dir\<rparr>,
             fst (letters_loop linesep dir (letter_body letter) (r # rs) files), script)"
    by (rule generate_personalized_letters_eq)
  show "fst (letters_loop linesep dir (letter_body letter) (r # rs) files) (letter_path dir files r) =
     Some (TextFile (text_write linesep (replace_str (letter_body letter) ''[name]'' r)))"
    using letters_loop_content [of r "r # rs" linesep dir "letter_body letter" files]
    by (simp add: letter_text_def)
qed

text \<open>The two copies on the same input: two recipients, an empty directory.\<close>

theorem merger_letters_example:
  "merger_generate_personalized_letters [CHR 0x0A] [''Alice'', ''Bob''] [AskDirectory ''out'']
     \<lparr>letter_body = ''Dear [name]'', output_directory = [],
      letter_file_location = [], is_placeholder_not_present = False\<rparr> Map.empty =
   Raise FileNotFoundError \<and>
   generate_personalized_letters [CHR 0x0A] [''Alice'', ''Bob''] [AskDirectory ''out'']
     \<lparr>letter_body = ''Dear [name]'', output_directory = [],
      letter_file_location = [], is_placeholder_not_present = False\<rparr> Map.empty =
   Return (\<lparr>letter_body = ''Dear [name]'', output_directory = ''out'',
            letter_file_location = [], is_placeholder_not_present = False\<rparr>,
           [''out/Alice's Mail.txt'' \<mapsto> TextFile ''Dear Alice'',
            ''out/Bob's Mail.txt'' \<mapsto> TextFile ''Dear Bob''], [])"
  by (simp add: startswith_def write_letter_def merger_write_letter_def with_open_write_def
      mail_path_def mail1_path_def text_write_def)

lemma startswith_iff: "startswith s p \<longleftrightarrow> (\<exists>post. s = p @ post)"
  unfolding startswith_def
  by (metis append_eq_conv_conj append_take_drop_id)

lemma str_in_iff: "str_in sub s \<longleftrightarrow> (\<exists>pre post. s = pre @ sub @ post)"
proof (induction s)
  case Nil
  then show ?case by auto
next
  case (Cons c cs)
  show ?case
  proof
    assume "str_in sub (c # cs)"
    then consider "startswith (c # cs) sub" | "str_in sub cs" by auto
    then show "\<exists>pre post. c # cs = pre @ sub @ post"
    proof cases
      case 1
      then obtain post where "c # cs = sub @ post" by (auto simp: startswith_iff)
      then have "c # cs = [] @ sub @ post" by simp
      then show ?thesis by blast
    next
      case 2
      with Cons obtain pre post where "cs = pre @ sub @ post" by auto
      then have "c # cs = (c # pre) @ sub @ post" by simp
      then show ?thesis by blast
    qed
  next
    assume "\<exists>pre post. c # cs = pre @ sub @ post"
    then obtain pre post where e: "c # cs = pre @ sub @ post" by auto
    show "str_in sub (c # cs)"
    proof (cases pre)
      case Nil
      with e have "startswith (c # cs) sub" by (auto simp: startswith_iff)
      then show ?thesis by simp
    next
      case (Cons a pre')
      with e have "cs = pre' @ sub @ post" by simp
      with Cons.IH have "str_in sub cs" by auto
      then show ?thesis by simp
    qed
  qed
qed

lemma find_str_neg: "find_str s sub < 0 \<longleftrightarrow> \<not> str_in sub s"
  by (induction s) (auto simp: Let_def startswith_def)

lemma find_str_range: "- 1 \<le> find_str s sub"
  by (induction s) (auto simp: Let_def)

text \<open>
  Claim C2. A letter body without the substring \<^verbatim>\<open>[name]\<close>, read from the file chosen with
  Browse or typed and confirmed in the text dialog, is not passed to letter generation:
  \<^verbatim>\<open>process_letter_content\<close> goes on as \<^verbatim>\<open>process_letter_content\<close> on the remaining
  answers, with the flag set and the files unchanged.
\<close>

theorem placeholder_required:
  assumes "\<not> (\<exists>pre post. body = pre @ ''[name]'' @ post)"
  shows "(location \<noteq> [] \<and> read_text_file files location = Inr body \<longrightarrow>
            process_letter_content linesep names
              (CustomBoxResult (Some ''Browse'') # AskOpenFilename location # script) letter files =
            process_letter_content linesep names script
              (letter\<lparr>letter_file_location := location, letter_body := body,
                      is_placeholder_not_present := True\<rparr>) files) \<and>
         (choice \<noteq> ''Exit'' \<and> choice \<noteq> [] \<longrightarrow>
            process_letter_content linesep names
              (CustomBoxResult (Some ''Type Letter Content'') # TextBoxResult body choice # script)
              letter files =
            process_letter_content linesep names script
              (letter\<lparr>letter_body := body, is_placeholder_not_present := True\<rparr>) files)"
proof -
  from assms have "find_str body ''[name]'' < 0"
    by (simp add: find_str_neg str_in_iff)
  then show ?thesis by (simp add: Let_def)
qed

theorem placeholder_required_witness:
  "\<not> (\<exists>pre post. ''Dear friend'' = pre @ ''[name]'' @ post) \<and>
   process_letter_content [CHR 0x0A] [''Ann'']
     [CustomBoxResult (Some ''Type Letter Content''), TextBoxResult ''Dear friend'' ''Continue'']
     \<lparr>letter_body = [], output_directory = [], letter_file_location = [],
      is_placeholder_not_present = False\<rparr> Map.empty =
   process_letter_content [CHR 0x0A] [''Ann''] []
     \<lparr>letter_body = ''Dear friend'', output_directory = [], letter_file_location = [],
      is_placeholder_not_present = True\<rparr> Map.empty \<and>
   process_letter_content [CHR 0x0A] [''Ann'']
     [CustomBoxResult (Some ''Browse''), AskOpenFilename ''letter.txt'',
      CustomBoxResult (Some ''Type Letter Content''), TextBoxResult ''Hi [name]'' ''Continue'',
      AskDirectory ''out'']
     \<lparr>letter_body = [], output_directory = [], letter_file_location = [],
      is_placeholder_not_present = False\<rparr> [''letter.txt'' \<mapsto> TextFile ''Dear friend''] =
   Return (\<lparr>letter_body = ''Hi [name]'', output_directory = ''out'',
            letter_file_location = ''letter.txt'', is_placeholder_not_present = False\<rparr>,
           [''letter.txt'' \<mapsto> TextFile ''Dear friend'', ''out/Ann's Mail.txt'' \<mapsto> TextFile ''Hi Ann''],
           [])"
proof -
  have "\<not> str_in ''[name]'' ''Dear friend''"
    by code_simp
  then have h: "\<not> (\<exists>pre post. ''Dear friend'' = pre @ ''[name]'' @ post)"
    unfolding str_in_iff .
  have r: "read_text_file [''letter.txt'' \<mapsto> TextFile ''Dear friend''] ''letter.txt'' = Inr ''Dear friend''"
    by (simp add: read_text_file_def)
  show ?thesis
    using h r
      placeholder_required [OF h, of "''letter.txt''" "[''letter.txt'' \<mapsto> TextFile ''Dear friend'']"
        "[CHR 0x0A]" "[''Ann'']"
        "[CustomBoxResult (Some ''Type Letter Content''), TextBoxResult ''Hi [name]'' ''Continue'',
          AskDirectory ''out'']"
        "\<lparr>letter_body = [], output_directory = [], letter_file_location = [],
          is_placeholder_not_present = False\<rparr>" "''Continue''"]
      placeholder_required [OF h, of "[]" Map.empty
        "[CHR 0x0A]" "[''Ann'']" "[]"
        "\<lparr>letter_body = [], output_directory = [], letter_file_location = [],
          is_placeholder_not_present = False\<rparr>" "''Continue''"]
    by (simp add: startswith_def write_letter_def with_open_write_def mail_path_def
        mail1_path_def text_write_def Let_def)
qed






lemma title_jean_paul: "title ''jean-paul'' = ''Jean-Paul''"
  by code_simp



section \<open>Properties of name collection and of the editor\<close>

lemma str_in_comma_Cons:
  "str_in '', '' (c # t) \<longleftrightarrow> (c = CHR '','' \<and> (\<exists>t'. t = CHR '' '' # t')) \<or> str_in '', '' t"
  by (cases t) (auto simp: startswith_def)

lemma text_read_head_space:
  "(\<exists>t'. text_read s = CHR '' '' # t') \<longleftrightarrow> (\<exists>s'. s = CHR '' '' # s')"
  by (induction s rule: text_read.induct) auto

lemma str_in_comma_text_read: "str_in '', '' (text_read raw) \<longleftrightarrow> str_in '', '' raw"
proof (induction raw rule: text_read.induct)
  case 1
  then show ?case by simp
next
  case (2 c)
  then show ?case by (simp add: startswith_def)
next
  case (3 c d ds)
  show ?case
  proof (cases "c = CHR 0x0D")
    case True
    then show ?thesis
      using 3 by (cases "d = CHR 0x0A") (simp_all add: str_in_comma_Cons del: str_in.simps)
  next
    case False
    then have "text_read (c # d # ds) = c # text_read (d # ds)" by simp
    then show ?thesis
      using 3 False text_read_head_space [of "d # ds"]
      by (simp add: str_in_comma_Cons del: str_in.simps text_read.simps)
  qed
qed

lemma split_abc: "split_str ''Alice, Bob, Carol'' '', '' = [''Alice'', ''Bob'', ''Carol'']"
  by code_simp

text \<open>
  Claim C4. A names file whose content is \<^verbatim>\<open>Alice, Bob, Carol\<close> gives the recipient list
  Alice, Bob, Carol. A file whose content does not contain a comma followed by a blank is
  rejected: the function asks for a file again, on the remaining answers, and the recipient
  list is as it was.
\<close>

theorem names_file_parsing:
  "(location \<noteq> [] \<and> files location = Some (TextFile ''Alice, Bob, Carol'') \<longrightarrow>
      names_text_file_processing name_collection (AskOpenFilename location # script) name_manager files =
        Return (name_manager\<lparr>names_file_location := location,
                              recipient_names := [''Alice'', ''Bob'', ''Carol'']\<rparr>, script)) \<and>
   (location \<noteq> [] \<and> files location = Some (TextFile content) \<and>
    \<not> (\<exists>pre post. content = pre @ '', '' @ post) \<longrightarrow>
      names_text_file_processing name_collection (AskOpenFilename location # script) name_manager files =
        names_text_file_processing name_collection script
          (name_manager\<lparr>names_file_location := location\<rparr>) files)"
proof (intro conjI impI)
  assume a: "location \<noteq> [] \<and> files location = Some (TextFile ''Alice, Bob, Carol'')"
  have "text_read ''Alice, Bob, Carol'' = ''Alice, Bob, Carol''" by code_simp
  with a have r: "read_text_file files location = Inr ''Alice, Bob, Carol''"
    by (simp add: read_text_file_def)
  have i: "str_in '', '' ''Alice, Bob, Carol''" by code_simp
  show "names_text_file_processing name_collection (AskOpenFilename location # script) name_manager files =
        Return (name_manager\<lparr>names_file_location := location,
                              recipient_names := [''Alice'', ''Bob'', ''Carol'']\<rparr>, script)"
    using a r i split_abc
    by (subst names_text_file_processing.simps) (simp add: Let_def del: str_in.simps split_str.simps)
next
  assume a: "location \<noteq> [] \<and> files location = Some (TextFile content) \<and>
    \<not> (\<exists>pre post. content = pre @ '', '' @ post)"
  then have r: "read_text_file files location = Inr (text_read content)"
    by (simp add: read_text_file_def)
  from a have "\<not> str_in '', '' content" by (simp add: str_in_iff)
  then have i: "\<not> str_in '', '' (text_read content)" by (simp add: str_in_comma_text_read)
  show "names_text_file_processing name_collection (AskOpenFilename location # script) name_manager files =
        names_text_file_processing name_collection script
          (name_manager\<lparr>names_file_location := location\<rparr>) files"
    using a r i
    by (subst names_text_file_processing.simps) (simp add: Let_def del: str_in.simps)
qed

theorem names_file_parsing_witness:
  "''names.txt'' \<noteq> [] \<and> ''bad.txt'' \<noteq> [] \<and>
   \<not> (\<exists>pre post. ''Alice,Bob'' = pre @ '', '' @ post) \<and>
   names_text_file_processing (\<lambda>s nm. NoInput)
     [AskOpenFilename ''bad.txt'', AskOpenFilename ''names.txt'']
     \<lparr>recipient_names = [], name_input_method = Some ''Text File'', names_file_location = [],
      total_recipients = 0, name_prompt = ''Please enter the name:''\<rparr>
     [''bad.txt'' \<mapsto> TextFile ''Alice,Bob'', ''names.txt'' \<mapsto> TextFile ''Alice, Bob, Carol''] =
   Return (\<lparr>recipient_names = [''Alice'', ''Bob'', ''Carol''],
            name_input_method = Some ''Text File'', names_file_location = ''names.txt'',
            total_recipients = 0, name_prompt = ''Please enter the name:''\<rparr>, [])"
proof -
  let ?files = "[''bad.txt'' \<mapsto> TextFile ''Alice,Bob'', ''names.txt'' \<mapsto> TextFile ''Alice, Bob, Carol'']"
  let ?nm = "\<lparr>recipient_names = [], name_input_method = Some ''Text File'', names_file_location = [],
      total_recipients = 0, name_prompt = ''Please enter the name:''\<rparr>"
  have "\<not> str_in '', '' ''Alice,Bob''" by code_simp
  then have h: "\<not> (\<exists>pre post. ''Alice,Bob'' = pre @ '', '' @ post)"
    unfolding str_in_iff .
  have b: "''bad.txt'' \<noteq> [] \<and> ?files ''bad.txt'' = Some (TextFile ''Alice,Bob'') \<and>
      \<not> (\<exists>pre post. ''Alice,Bob'' = pre @ '', '' @ post)"
    using h by simp
  have g: "''names.txt'' \<noteq> [] \<and> ?files ''names.txt'' = Some (TextFile ''Alice, Bob, Carol'')"
    by simp
  have s1: "names_text_file_processing (\<lambda>s nm. NoInput)
      (AskOpenFilename ''bad.txt'' # [AskOpenFilename ''names.txt'']) ?nm ?files =
      names_text_file_processing (\<lambda>s nm. NoInput) [AskOpenFilename ''names.txt'']
        (?nm\<lparr>names_file_location := ''bad.txt''\<rparr>) ?files"
    by (rule names_file_parsing [where location = "''bad.txt''" and files = ?files
          and content = "''Alice,Bob''", THEN conjunct2, THEN mp, OF b])
  have s2: "names_text_file_processing (\<lambda>s nm. NoInput)
      (AskOpenFilename ''names.txt'' # []) (?nm\<lparr>names_file_location := ''bad.txt''\<rparr>) ?files =
      Return (?nm\<lparr>names_file_location := ''bad.txt''\<rparr>\<lparr>names_file_location := ''names.txt'',
                recipient_names := [''Alice'', ''Bob'', ''Carol'']\<rparr>, [])"
    by (rule names_file_parsing [where location = "''names.txt''" and files = ?files,
          THEN conjunct1, THEN mp, OF g])
  show ?thesis
    using h s1 s2 by simp
qed

text \<open>
  Claim C10. When \<^verbatim>\<open>ask_recipient_count\<close> returns, the count it has stored is at least 2.
\<close>

theorem recipient_count_at_least_two:
  "ask_recipient_count script name_manager = Return (nm', script') \<Longrightarrow> 2 \<le> total_recipients nm'"
proof (induction script name_manager rule: ask_recipient_count.induct)
  case (1 n choice script name_manager)
  show ?case
  proof (cases "choice = ''Exit''")
    case True
    with "1.prems" obtain s where s: "exit_confirmation script = Return s"
      and r: "ask_recipient_count s (name_manager\<lparr>total_recipients := n\<rparr>\<lparr>total_recipients := 0\<rparr>) =
          Return (nm', script')"
      by (auto simp: Let_def split: result.splits)
    show ?thesis
      by (rule "1.IH"(1) [OF refl True refl s _ r]) simp
  next
    case False
    show ?thesis
    proof (cases "2 \<le> n")
      case True
      with False "1.prems" show ?thesis by (auto simp: Let_def)
    next
      case ge: False
      with False "1.prems" have r: "ask_recipient_count script (name_manager\<lparr>total_recipients := n\<rparr>) =
          Return (nm', script')"
        by (simp add: Let_def)
      show ?thesis
        by (rule "1.IH"(2) [OF refl False _ r]) (use ge in simp)
    qed
  qed
qed simp_all

theorem recipient_count_at_least_two_witness:
  "ask_recipient_count
     [IntBoxResult 1 ''Continue'', IntBoxResult 7 ''Exit'', CustomBoxResult (Some ''No''),
      IntBoxResult 5 ''Continue'']
     \<lparr>recipient_names = [], name_input_method = Some ''Manual Insert'', names_file_location = [],
      total_recipients = 0, name_prompt = ''Please enter the name:''\<rparr> =
   Return (\<lparr>recipient_names = [], name_input_method = Some ''Manual Insert'', names_file_location = [],
            total_recipients = 5, name_prompt = ''Please enter the name:''\<rparr>, []) \<and>
   (2::int) \<le> total_recipients
     \<lparr>recipient_names = [], name_input_method = Some ''Manual Insert'', names_file_location = [],
      total_recipients = 5, name_prompt = ''Please enter the name:''\<rparr>"
proof -
  have e: "ask_recipient_count
     [IntBoxResult 1 ''Continue'', IntBoxResult 7 ''Exit'', CustomBoxResult (Some ''No''),
      IntBoxResult 5 ''Continue'']
     \<lparr>recipient_names = [], name_input_method = Some ''Manual Insert'', names_file_location = [],
      total_recipients = 0, name_prompt = ''Please enter the name:''\<rparr> =
   Return (\<lparr>recipient_names = [], name_input_method = Some ''Manual Insert'', names_file_location = [],
            total_recipients = 5, name_prompt = ''Please enter the name:''\<rparr>, [])"
    by (simp add: Let_def)
  from e recipient_count_at_least_two [OF e] show ?thesis by blast
qed




lemma split_str_no_sep: "line \<in> set (split_str s [c]) \<Longrightarrow> c \<notin> set line"
proof (induction s arbitrary: line)
  case Nil
  then show ?case by simp
next
  case (Cons a s)
  show ?case
  proof (cases "a = c")
    case True
    with Cons show ?thesis by (auto simp: startswith_def)
  next
    case False
    with Cons show ?thesis
      by (cases "split_str s [c]") (auto simp: startswith_def)
  qed
qed



lemma text_read_Cons_other: "c \<noteq> CHR 0x0D \<Longrightarrow> text_read (c # t) = c # text_read t"
  by (cases t) simp_all


lemma text_read_no_cr: "CHR 0x0D \<notin> set s \<Longrightarrow> text_read s = s"
proof (induction s)
  case Nil
  then show ?case by simp
next
  case (Cons a s)
  then have "a \<noteq> CHR 0x0D" and "text_read s = s" by auto
  then show ?case by (metis text_read_Cons_other)
qed





section \<open>Properties of the csv round trip\<close>




































end
